theory Spec2Isabelle
  imports Complex_Main
begin

section \<open>JavaScript numbers\<close>

text \<open>
  Every number of \<^verbatim>\<open>src/src/App.js\<close> is a JavaScript Number, a double. The embedding
  keeps the four kinds of value such a number can be: a finite value, the two infinities
  and NaN. The infinities and NaN follow the IEEE-754 rules the language prescribes. A
  product or quotient of finite values that leaves the range of the doubles becomes an
  infinity, as it does in the code. Inside the range a finite result is the exact real:
  rounding is left out, and so is the sign of zero (\<open>1 / 0\<close> is \<open>+Infinity\<close>, as it is for
  the positive zero). Sums, differences and square roots are exact as well.
\<close>

datatype jsnum = Fin real | PInf | NInf | NaN

text \<open>\<^verbatim>\<open>a + b\<close>\<close>

fun js_add :: "jsnum \<Rightarrow> jsnum \<Rightarrow> jsnum" where
  "js_add NaN b = NaN"
| "js_add a NaN = NaN"
| "js_add (Fin a) (Fin b) = Fin (a + b)"
| "js_add (Fin a) PInf = PInf"
| "js_add (Fin a) NInf = NInf"
| "js_add PInf (Fin b) = PInf"
| "js_add NInf (Fin b) = NInf"
| "js_add PInf PInf = PInf"
| "js_add NInf NInf = NInf"
| "js_add PInf NInf = NaN"
| "js_add NInf PInf = NaN"

text \<open>The sign of an infinite product: \<open>pos\<close> tells whether it is positive.\<close>

definition js_inf :: "bool \<Rightarrow> jsnum" where
  "js_inf pos = (if pos then PInf else NInf)"

text \<open>
  A real beyond the range of the doubles: round-to-nearest gives an infinity from
  \<open>2 ^ 1024 - 2 ^ 970\<close> on, half a unit in the last place above the largest double.
\<close>

definition double_overflow :: "real \<Rightarrow> bool" where
  "double_overflow x = (2 ^ 1024 - 2 ^ 970 \<le> \<bar>x\<bar>)"

text \<open>The double a finite product or quotient \<open>x\<close> becomes, rounding left out.\<close>

definition js_finite_result :: "real \<Rightarrow> jsnum" where
  "js_finite_result x = (if double_overflow x then js_inf (0 < x) else Fin x)"

text \<open>\<^verbatim>\<open>a * b\<close>: an infinity times zero is NaN.\<close>

fun js_mul :: "jsnum \<Rightarrow> jsnum \<Rightarrow> jsnum" where
  "js_mul NaN b = NaN"
| "js_mul a NaN = NaN"
| "js_mul (Fin a) (Fin b) = js_finite_result (a * b)"
| "js_mul (Fin a) PInf = (if a = 0 then NaN else js_inf (0 < a))"
| "js_mul (Fin a) NInf = (if a = 0 then NaN else js_inf (a < 0))"
| "js_mul PInf (Fin b) = (if b = 0 then NaN else js_inf (0 < b))"
| "js_mul NInf (Fin b) = (if b = 0 then NaN else js_inf (b < 0))"
| "js_mul PInf PInf = PInf"
| "js_mul NInf NInf = PInf"
| "js_mul PInf NInf = NInf"
| "js_mul NInf PInf = NInf"

text \<open>
  \<^verbatim>\<open>a / b\<close>: a nonzero finite value over zero is an infinity, zero over zero and an
  infinity over an infinity are NaN, a finite value over an infinity is zero.
\<close>

fun js_div :: "jsnum \<Rightarrow> jsnum \<Rightarrow> jsnum" where
  "js_div NaN b = NaN"
| "js_div a NaN = NaN"
| "js_div (Fin a) (Fin b) =
     (if b = 0 then (if a = 0 then NaN else js_inf (0 < a)) else js_finite_result (a / b))"
| "js_div (Fin a) PInf = Fin 0"
| "js_div (Fin a) NInf = Fin 0"
| "js_div PInf (Fin b) = js_inf (0 \<le> b)"
| "js_div NInf (Fin b) = js_inf (b < 0)"
| "js_div PInf PInf = NaN"
| "js_div NInf NInf = NaN"
| "js_div PInf NInf = NaN"
| "js_div NInf PInf = NaN"

text \<open>\<^verbatim>\<open>Math.sqrt(a)\<close>\<close>

fun js_sqrt :: "jsnum \<Rightarrow> jsnum" where
  "js_sqrt (Fin a) = (if a < 0 then NaN else Fin (sqrt a))"
| "js_sqrt PInf = PInf"
| "js_sqrt NInf = NaN"
| "js_sqrt NaN = NaN"

text \<open>
  \<^verbatim>\<open>a ** 0.5\<close>: the exponentiation operator with the exponent one half. It differs
  from \<^verbatim>\<open>Math.sqrt\<close> at \<open>-Infinity\<close>, where it is \<open>+Infinity\<close>.
\<close>

fun js_pow_half :: "jsnum \<Rightarrow> jsnum" where
  "js_pow_half (Fin a) = (if a < 0 then NaN else Fin (sqrt a))"
| "js_pow_half PInf = PInf"
| "js_pow_half NInf = PInf"
| "js_pow_half NaN = NaN"

text \<open>\<^verbatim>\<open>Math.sin(a)\<close> and \<^verbatim>\<open>Math.cos(a)\<close>: NaN at an infinity.\<close>

fun js_sin :: "jsnum \<Rightarrow> jsnum" where
  "js_sin (Fin a) = Fin (sin a)"
| "js_sin a = NaN"

fun js_cos :: "jsnum \<Rightarrow> jsnum" where
  "js_cos (Fin a) = Fin (cos a)"
| "js_cos a = NaN"

text \<open>\<^verbatim>\<open>a || b\<close> on numbers: zero and NaN are falsy.\<close>

definition js_or :: "jsnum \<Rightarrow> jsnum \<Rightarrow> jsnum" where
  "js_or a b = (if a = Fin 0 \<or> a = NaN then b else a)"

text \<open>\<^verbatim>\<open>Number.isFinite(a)\<close>\<close>

fun js_isFinite :: "jsnum \<Rightarrow> bool" where
  "js_isFinite (Fin a) = True"
| "js_isFinite a = False"

text \<open>\<^verbatim>\<open>a >= b\<close>: false when either side is NaN.\<close>

fun js_ge :: "jsnum \<Rightarrow> jsnum \<Rightarrow> bool" where
  "js_ge NaN b = False"
| "js_ge a NaN = False"
| "js_ge (Fin a) (Fin b) = (b \<le> a)"
| "js_ge (Fin a) PInf = False"
| "js_ge (Fin a) NInf = True"
| "js_ge PInf b = True"
| "js_ge NInf NInf = True"
| "js_ge NInf b = False"

section \<open>The vectors of three.js\<close>

text \<open>
  \<^verbatim>\<open>THREE.Vector3\<close> is a mutable object with the fields \<open>x\<close>, \<open>y\<close>, \<open>z\<close>. The methods
  the program calls, as three.js defines them, each returning the receiver:
  \<^verbatim>\<open>add(v)\<close> adds componentwise, \<^verbatim>\<open>multiplyScalar(s)\<close> multiplies every
  component by \<open>s\<close>, \<^verbatim>\<open>divideScalar(s)\<close> is \<^verbatim>\<open>multiplyScalar(1 / s)\<close>,
  \<^verbatim>\<open>length()\<close> is \<^verbatim>\<open>Math.sqrt(x * x + y * y + z * z)\<close> and \<^verbatim>\<open>normalize()\<close> is
  \<^verbatim>\<open>divideScalar(this.length() || 1)\<close>. Here a vector is its value, and a method
  returns the receiver's new value.
\<close>

datatype Vector3 = Vector3 (vec_x: jsnum) (vec_y: jsnum) (vec_z: jsnum)

definition v_add :: "Vector3 \<Rightarrow> Vector3 \<Rightarrow> Vector3" where
  "v_add a b =
     Vector3 (js_add (vec_x a) (vec_x b)) (js_add (vec_y a) (vec_y b))
       (js_add (vec_z a) (vec_z b))"

definition v_multiplyScalar :: "Vector3 \<Rightarrow> jsnum \<Rightarrow> Vector3" where
  "v_multiplyScalar a s =
     Vector3 (js_mul (vec_x a) s) (js_mul (vec_y a) s) (js_mul (vec_z a) s)"

definition v_divideScalar :: "Vector3 \<Rightarrow> jsnum \<Rightarrow> Vector3" where
  "v_divideScalar a s = v_multiplyScalar a (js_div (Fin 1) s)"

definition v_length :: "Vector3 \<Rightarrow> jsnum" where
  "v_length a =
     js_sqrt (js_add (js_add (js_mul (vec_x a) (vec_x a)) (js_mul (vec_y a) (vec_y a)))
       (js_mul (vec_z a) (vec_z a)))"

definition v_normalize :: "Vector3 \<Rightarrow> Vector3" where
  "v_normalize a = v_divideScalar a (js_or (v_length a) (Fin 1))"

section \<open>The chain generator\<close>

text \<open>A point is the three-element array \<^verbatim>\<open>[x, y, z]\<close>.\<close>

type_synonym point = "jsnum \<times> jsnum \<times> jsnum"

text \<open>
  The only operation of \<^verbatim>\<open>calculateWLCChain\<close> that can throw on numbers is
  \<^verbatim>\<open>points[i - 1].slice()\<close>: reading an array out of range gives \<open>undefined\<close>, and
  the call of a method on it is a TypeError.
\<close>

datatype error = TypeError

definition js_index :: "'a list \<Rightarrow> int \<Rightarrow> 'a option" where
  "js_index xs i = (if 0 \<le> i \<and> i < int (length xs) then Some (xs ! nat i) else None)"

text \<open>The variables the loop of \<^verbatim>\<open>calculateWLCChain\<close> mutates.\<close>

record loop_state =
  direction :: Vector3
  force :: Vector3
  points :: "point list"

text \<open>Line 30: \<^verbatim>\<open>(temperature / persistenceLength) ** 0.5 * noiseLevel\<close>.\<close>

definition thermalFluctuation :: "jsnum \<Rightarrow> jsnum \<Rightarrow> jsnum \<Rightarrow> jsnum" where
  "thermalFluctuation persistenceLength temperature noiseLevel =
     js_mul (js_pow_half (js_div temperature persistenceLength)) noiseLevel"

text \<open>Lines 36 to 40: the vector \<^verbatim>\<open>fluctuation\<close> of the iteration \<open>i\<close>.\<close>

definition fluctuation :: "jsnum \<Rightarrow> jsnum \<Rightarrow> int \<Rightarrow> Vector3" where
  "fluctuation time tf i =
     Vector3
       (js_mul (js_mul (js_sin (js_add time (Fin (of_int i)))) (Fin 0.5)) tf)
       (js_mul (js_mul (js_cos (js_add time (Fin (of_int i)))) (Fin 0.5)) tf)
       (js_mul (js_mul (js_sin (js_mul time (Fin 0.5))) (Fin 0.5)) tf)"

text \<open>
  Line 42: \<^verbatim>\<open>direction.add(fluctuation).normalize()\<close>, the direction before the force
  is added.
\<close>

definition normalized_direction :: "jsnum \<Rightarrow> jsnum \<Rightarrow> int \<Rightarrow> Vector3 \<Rightarrow> Vector3" where
  "normalized_direction time tf i d = v_normalize (v_add d (fluctuation time tf i))"

text \<open>
  Lines 45 to 48: the copy \<^verbatim>\<open>points[i - 1].slice()\<close> with the direction added to its
  three elements.
\<close>

definition add_direction :: "point \<Rightarrow> Vector3 \<Rightarrow> point" where
  "add_direction p d =
     (case p of (px, py, pz) \<Rightarrow>
        (js_add px (vec_x d), js_add py (vec_y d), js_add pz (vec_z d)))"

text \<open>
  Lines 35 to 50, one iteration: line 43 scales \<^verbatim>\<open>force\<close> in place and adds it to
  the direction; lines 45 to 50 copy the previous point, add the direction to it and
  push it.
\<close>

definition loop_body :: "jsnum \<Rightarrow> jsnum \<Rightarrow> jsnum \<Rightarrow> int \<Rightarrow> loop_state \<Rightarrow> error + loop_state" where
  "loop_body time tf bendingRigidity i st =
     (let d1 = normalized_direction time tf i (direction st);
          f1 = v_multiplyScalar (force st) (js_div (Fin 1) bendingRigidity);
          d2 = v_add d1 f1
      in case js_index (points st) (i - 1) of
           None \<Rightarrow> Inl TypeError
         | Some p \<Rightarrow>
             Inr \<lparr>direction = d2, force = f1, points = points st @ [add_direction p d2]\<rparr>)"

text \<open>Line 34: \<^verbatim>\<open>for (let i = 1; i < length; i++)\<close>, entered with the counter at \<open>i\<close>.\<close>

function wlc_loop ::
  "jsnum \<Rightarrow> jsnum \<Rightarrow> jsnum \<Rightarrow> int \<Rightarrow> int \<Rightarrow> loop_state \<Rightarrow> error + loop_state" where
  "wlc_loop time tf bendingRigidity len i st =
     (if i < len then
        (case loop_body time tf bendingRigidity i st of
           Inl e \<Rightarrow> Inl e
         | Inr st' \<Rightarrow> wlc_loop time tf bendingRigidity len (i + 1) st')
      else Inr st)"
  by pat_completeness auto
termination
  by (relation "measure (\<lambda>(time, tf, bendingRigidity, len, i, st). nat (len - i))") auto

declare wlc_loop.simps [simp del]

text \<open>Lines 29, 31 and 32: the variables before the loop.\<close>

definition wlc_init :: "Vector3 \<Rightarrow> loop_state" where
  "wlc_init externalForce =
     \<lparr>direction = Vector3 (Fin 1) (Fin 0) (Fin 0),
      force = Vector3 (vec_x externalForce) (vec_y externalForce) (vec_z externalForce),
      points = [(Fin 0, Fin 0, Fin 0)]\<rparr>"

text \<open>Lines 28 to 54. The chain length is an integer.\<close>

definition calculateWLCChain ::
  "int \<Rightarrow> jsnum \<Rightarrow> jsnum \<Rightarrow> jsnum \<Rightarrow> jsnum \<Rightarrow> jsnum \<Rightarrow> Vector3 \<Rightarrow> error + point list" where
  "calculateWLCChain len persistenceLength temperature time bendingRigidity noiseLevel
       externalForce =
     (case wlc_loop time (thermalFluctuation persistenceLength temperature noiseLevel)
             bendingRigidity len 1 (wlc_init externalForce) of
        Inl e \<Rightarrow> Inl e
      | Inr st \<Rightarrow> Inr (points st))"

text \<open>
  The variables of the loop when the iteration with the counter \<open>k\<close> has completed: the
  loop run with the bound \<open>k + 1\<close>. The body never reads the bound, so a call with a
  larger bound passes through this state (\<open>wlc_loop_through\<close> below).
\<close>

definition state_after :: "jsnum \<Rightarrow> jsnum \<Rightarrow> jsnum \<Rightarrow> Vector3 \<Rightarrow> int \<Rightarrow> error + loop_state" where
  "state_after time tf bendingRigidity externalForce k =
     wlc_loop time tf bendingRigidity (k + 1) 1 (wlc_init externalForce)"

subsection \<open>Segments\<close>

text \<open>\<^verbatim>\<open>a - b\<close>\<close>

fun js_sub :: "jsnum \<Rightarrow> jsnum \<Rightarrow> jsnum" where
  "js_sub NaN b = NaN"
| "js_sub a NaN = NaN"
| "js_sub (Fin a) (Fin b) = Fin (a - b)"
| "js_sub (Fin a) PInf = NInf"
| "js_sub (Fin a) NInf = PInf"
| "js_sub PInf (Fin b) = PInf"
| "js_sub NInf (Fin b) = NInf"
| "js_sub PInf PInf = NaN"
| "js_sub NInf NInf = NaN"
| "js_sub PInf NInf = PInf"
| "js_sub NInf PInf = NInf"

text \<open>The segment vector \<^verbatim>\<open>points[i] - points[i - 1]\<close> of a chain.\<close>

definition segment :: "point list \<Rightarrow> nat \<Rightarrow> Vector3" where
  "segment ps i =
     (case (ps ! i, ps ! (i - 1)) of
        ((qx, qy, qz), (px, py, pz)) \<Rightarrow> Vector3 (js_sub qx px) (js_sub qy py) (js_sub qz pz))"

text \<open>A point every coordinate of which is an infinity or NaN.\<close>

definition point_nonfinite :: "point \<Rightarrow> bool" where
  "point_nonfinite p =
     (case p of (px, py, pz) \<Rightarrow> \<not> js_isFinite px \<and> \<not> js_isFinite py \<and> \<not> js_isFinite pz)"

section \<open>The chain generator on a heap of objects\<close>

text \<open>
  \<^verbatim>\<open>calculateWLCChain\<close> receives \<^verbatim>\<open>externalForce\<close> as a reference to an object of its
  caller, creates the vectors \<^verbatim>\<open>direction\<close>, \<^verbatim>\<open>force\<close> and \<^verbatim>\<open>fluctuation\<close> with
  \<^verbatim>\<open>new\<close> and mutates the first two in place. Here the objects with the fields \<open>x\<close>,
  \<open>y\<close>, \<open>z\<close> live in a heap, a reference is an index of the heap, \<^verbatim>\<open>new\<close> appends
  an object, and a method writes the receiver's cell.
\<close>

type_synonym heap = "Vector3 list"
type_synonym ref = nat

definition new_Vector3 :: "heap \<Rightarrow> jsnum \<Rightarrow> jsnum \<Rightarrow> jsnum \<Rightarrow> ref \<times> heap" where
  "new_Vector3 h a b c = (length h, h @ [Vector3 a b c])"

text \<open>\<^verbatim>\<open>r.add(v)\<close>, \<^verbatim>\<open>r.normalize()\<close> and \<^verbatim>\<open>r.multiplyScalar(s)\<close> on references.\<close>

definition h_add :: "heap \<Rightarrow> ref \<Rightarrow> ref \<Rightarrow> heap" where
  "h_add h r v = h[r := v_add (h ! r) (h ! v)]"

definition h_normalize :: "heap \<Rightarrow> ref \<Rightarrow> heap" where
  "h_normalize h r = h[r := v_normalize (h ! r)]"

definition h_multiplyScalar :: "heap \<Rightarrow> ref \<Rightarrow> jsnum \<Rightarrow> heap" where
  "h_multiplyScalar h r s = h[r := v_multiplyScalar (h ! r) s]"

text \<open>
  Lines 35 to 50 with the references \<open>d\<close> of \<^verbatim>\<open>direction\<close> and \<open>f\<close> of \<^verbatim>\<open>force\<close>;
  the state is the heap and the array \<^verbatim>\<open>points\<close>.
\<close>

definition loop_body_heap ::
  "jsnum \<Rightarrow> jsnum \<Rightarrow> jsnum \<Rightarrow> ref \<Rightarrow> ref \<Rightarrow> int \<Rightarrow> heap \<times> point list \<Rightarrow>
     error + heap \<times> point list" where
  "loop_body_heap time tf bendingRigidity d f i hp =
     (case hp of (h, pts) \<Rightarrow>
       (case new_Vector3 h
               (js_mul (js_mul (js_sin (js_add time (Fin (of_int i)))) (Fin 0.5)) tf)
               (js_mul (js_mul (js_cos (js_add time (Fin (of_int i)))) (Fin 0.5)) tf)
               (js_mul (js_mul (js_sin (js_mul time (Fin 0.5))) (Fin 0.5)) tf) of
          (fl, h1) \<Rightarrow>
            (let h2 = h_normalize (h_add h1 d fl) d;
                 h3 = h_multiplyScalar h2 f (js_div (Fin 1) bendingRigidity);
                 h4 = h_add h3 d f
             in case js_index pts (i - 1) of
                  None \<Rightarrow> Inl TypeError
                | Some p \<Rightarrow> Inr (h4, pts @ [add_direction p (h4 ! d)]))))"

function wlc_loop_heap ::
  "jsnum \<Rightarrow> jsnum \<Rightarrow> jsnum \<Rightarrow> ref \<Rightarrow> ref \<Rightarrow> int \<Rightarrow> int \<Rightarrow> heap \<times> point list \<Rightarrow>
     error + heap \<times> point list" where
  "wlc_loop_heap time tf bendingRigidity d f len i hp =
     (if i < len then
        (case loop_body_heap time tf bendingRigidity d f i hp of
           Inl e \<Rightarrow> Inl e
         | Inr hp' \<Rightarrow> wlc_loop_heap time tf bendingRigidity d f len (i + 1) hp')
      else Inr hp)"
  by pat_completeness auto
termination
  by (relation "measure (\<lambda>(time, tf, bendingRigidity, d, f, len, i, hp). nat (len - i))") auto

declare wlc_loop_heap.simps [simp del]

text \<open>
  Lines 28 to 54 on the heap \<open>h\<close> of the caller, \<open>ef\<close> the reference of
  \<^verbatim>\<open>externalForce\<close>: the result is the array of points and the heap the call leaves.
\<close>

definition calculateWLCChain_heap ::
  "heap \<Rightarrow> int \<Rightarrow> jsnum \<Rightarrow> jsnum \<Rightarrow> jsnum \<Rightarrow> jsnum \<Rightarrow> jsnum \<Rightarrow> ref \<Rightarrow>
     error + point list \<times> heap" where
  "calculateWLCChain_heap h len persistenceLength temperature time bendingRigidity noiseLevel ef =
     (case new_Vector3 h (Fin 1) (Fin 0) (Fin 0) of
        (d, h1) \<Rightarrow>
          (case new_Vector3 h1 (vec_x (h1 ! ef)) (vec_y (h1 ! ef)) (vec_z (h1 ! ef)) of
             (f, h2) \<Rightarrow>
               (case wlc_loop_heap time
                       (thermalFluctuation persistenceLength temperature noiseLevel)
                       bendingRigidity d f len 1 (h2, [(Fin 0, Fin 0, Fin 0)]) of
                  Inl e \<Rightarrow> Inl e
                | Inr (h', pts) \<Rightarrow> Inr (pts, h'))))"

section \<open>The animation driver\<close>

text \<open>
  The properties \<^verbatim>\<open>DNAModel\<close> is rendered with (lines 56 and 85 to 92), which are the
  state of \<^verbatim>\<open>App\<close> (lines 70 to 75).
\<close>

record dna_props =
  prop_length :: int
  prop_persistenceLength :: jsnum
  prop_temperature :: jsnum
  prop_bendingRigidity :: jsnum
  prop_noiseLevel :: jsnum
  prop_externalForce :: Vector3

text \<open>
  What a mounted \<^verbatim>\<open>DNAModel\<close> keeps between renders: \<^verbatim>\<open>timeRef.current\<close> (line 58)
  and the state \<^verbatim>\<open>points\<close> (line 57).
\<close>

record dna_model =
  timeRef :: jsnum
  points_state :: "point list"

definition DNAModel_mount :: dna_model where
  "DNAModel_mount = \<lparr>timeRef = Fin 0, points_state = []\<rparr>"

text \<open>
  Lines 60 to 64, the callback given to \<^verbatim>\<open>useFrame\<close>, which runs once a frame with the
  properties of the latest render. An exception of the generator would leave the callback
  after the increment of line 61.
\<close>

definition useFrame_callback :: "dna_props \<Rightarrow> dna_model \<Rightarrow> dna_model" where
  "useFrame_callback p s =
     (let t = js_add (timeRef s) (Fin 0.01) in
      case calculateWLCChain (prop_length p) (prop_persistenceLength p) (prop_temperature p) t
             (prop_bendingRigidity p) (prop_noiseLevel p) (prop_externalForce p) of
        Inl e \<Rightarrow> s\<lparr>timeRef := t\<rparr>
      | Inr newPoints \<Rightarrow> s\<lparr>timeRef := t, points_state := newPoints\<rparr>)"

text \<open>
  What happens to a running application: a frame is drawn, or a slider is moved and
  \<^verbatim>\<open>App\<close> renders \<^verbatim>\<open>DNAModel\<close> again with other properties. A render keeps the
  reference made by \<^verbatim>\<open>useRef\<close> and the state made by \<^verbatim>\<open>useState\<close>.
\<close>

datatype event = Frame | Edit dna_props

fun app_step :: "dna_props \<times> dna_model \<Rightarrow> event \<Rightarrow> dna_props \<times> dna_model" where
  "app_step (p, s) Frame = (p, useFrame_callback p s)"
| "app_step (p, s) (Edit p') = (p', s)"

fun app_run :: "dna_props \<times> dna_model \<Rightarrow> event list \<Rightarrow> dna_props \<times> dna_model" where
  "app_run c [] = c"
| "app_run c (e # es) = app_run (app_step c e) es"

text \<open>The number of frames among the events.\<close>

fun frames :: "event list \<Rightarrow> nat" where
  "frames [] = 0"
| "frames (Frame # es) = Suc (frames es)"
| "frames (Edit p # es) = frames es"

section \<open>Results inside the range of the doubles\<close>

lemma not_double_overflow:
  assumes "\<bar>x\<bar> \<le> 2 ^ 1023"
  shows "\<not> double_overflow x"
proof -
  have "(2::real) ^ 970 < 2 ^ 1023" by (rule power_strict_increasing) simp_all
  moreover have "(2::real) ^ 1024 = 2 * 2 ^ 1023" by simp
  ultimately have "2 ^ 1023 < (2::real) ^ 1024 - 2 ^ 970" by linarith
  then show ?thesis using assms by (simp add: double_overflow_def)
qed

lemma js_finite_result_Fin [simp]:
  "\<bar>x\<bar> \<le> 2 ^ 1023 \<Longrightarrow> js_finite_result x = Fin x"
  by (simp add: js_finite_result_def not_double_overflow)

lemma js_finite_result_unit:
  assumes "\<bar>x\<bar> \<le> 1"
  shows "js_finite_result x = Fin x"
proof -
  have "(1::real) \<le> 2 ^ 1023" by (rule one_le_power) simp
  then show ?thesis using assms by (intro js_finite_result_Fin) linarith
qed

lemma js_mul_zero: "js_mul (Fin a) (Fin 0) = Fin 0"
  by (simp add: js_finite_result_unit)

lemma js_mul_NaN: "js_mul a NaN = NaN"
  by (cases a) simp_all

lemma js_mul_sin_half: "js_mul (Fin (sin x)) (Fin 0.5) = Fin (sin x * 0.5)"
proof -
  have "\<bar>sin x * 0.5\<bar> = \<bar>sin x\<bar> * 0.5" by (simp add: abs_mult)
  then have "\<bar>sin x * 0.5\<bar> \<le> 1" using abs_sin_le_one[of x] by linarith
  then show ?thesis by (simp only: js_mul.simps js_finite_result_unit)
qed

lemma js_mul_cos_half: "js_mul (Fin (cos x)) (Fin 0.5) = Fin (cos x * 0.5)"
proof -
  have "\<bar>cos x * 0.5\<bar> = \<bar>cos x\<bar> * 0.5" by (simp add: abs_mult)
  then have "\<bar>cos x * 0.5\<bar> \<le> 1" using abs_cos_le_one[of x] by linarith
  then show ?thesis by (simp only: js_mul.simps js_finite_result_unit)
qed

lemma js_mul_time_half:
  assumes "\<bar>t\<bar> < 2 ^ 1024"
  shows "js_mul (Fin t) (Fin 0.5) = Fin (t * 0.5)"
proof -
  have "\<bar>t * 0.5\<bar> \<le> 2 ^ 1023" using assms by (simp add: abs_mult)
  then show ?thesis by (simp only: js_mul.simps js_finite_result_Fin)
qed

lemma fluctuation_noise_off:
  assumes "\<bar>t\<bar> < 2 ^ 1024"
  shows "fluctuation (Fin t) (Fin 0) i = Vector3 (Fin 0) (Fin 0) (Fin 0)"
  unfolding fluctuation_def
  by (simp only: js_add.simps js_sin.simps js_cos.simps js_mul_sin_half js_mul_cos_half
      js_mul_time_half[OF assms] js_mul_zero)

lemma fluctuation_NaN: "fluctuation time NaN i = Vector3 NaN NaN NaN"
  by (simp add: fluctuation_def js_mul_NaN)

lemma fluctuation_PInf: "fluctuation PInf tf i = Vector3 NaN NaN NaN"
  by (simp add: fluctuation_def js_inf_def)


lemma thermalFluctuation_noise_off:
  assumes "js_div temperature persistenceLength = Fin q" "0 \<le> q"
  shows "thermalFluctuation persistenceLength temperature (Fin 0) = Fin 0"
  using assms by (simp add: thermalFluctuation_def js_mul_zero)

lemma js_div_default: "js_div (Fin 300) (Fin 50) = Fin 6"
  by (simp add: js_finite_result_def double_overflow_def)

lemma thermalFluctuation_default: "thermalFluctuation (Fin 50) (Fin 300) (Fin 0) = Fin 0"
  by (rule thermalFluctuation_noise_off[OF js_div_default]) simp

lemma fluctuation_default: "fluctuation (Fin 0) (Fin 0) i = Vector3 (Fin 0) (Fin 0) (Fin 0)"
  by (rule fluctuation_noise_off) simp

lemmas js_evaluate =
  js_finite_result_def double_overflow_def thermalFluctuation_default fluctuation_default

section \<open>The loop never fails and only appends\<close>

lemma loop_body_Inr:
  assumes "1 \<le> i" "int (length (points st)) = i"
  shows "loop_body time tf b i st =
     Inr \<lparr>direction = v_add (normalized_direction time tf i (direction st))
                        (v_multiplyScalar (force st) (js_div (Fin 1) b)),
          force = v_multiplyScalar (force st) (js_div (Fin 1) b),
          points = points st @ [add_direction (last (points st))
             (v_add (normalized_direction time tf i (direction st))
                        (v_multiplyScalar (force st) (js_div (Fin 1) b)))]\<rparr>"
proof -
  have ne: "points st \<noteq> []" using assms by auto
  have "nat (i - 1) = length (points st) - 1" using assms by auto
  then have "points st ! nat (i - 1) = last (points st)"
    using ne by (simp add: last_conv_nth)
  then show ?thesis using assms
    by (simp add: loop_body_def js_index_def Let_def)
qed

lemma wlc_loop_Inr:
  "1 \<le> i \<Longrightarrow> int (length (points st)) = i \<Longrightarrow>
   \<exists>st'. wlc_loop time tf b len i st = Inr st' \<and>
         int (length (points st')) = max i len \<and>
         take (length (points st)) (points st') = points st"
proof (induction time tf b len i st rule: wlc_loop.induct)
  case (1 time tf b len i st)
  show ?case
  proof (cases "i < len")
    case False
    then show ?thesis using 1(3) by (simp add: wlc_loop.simps)
  next
    case True
    from loop_body_Inr[OF 1(2,3), of time tf b]
    obtain st1 p where b: "loop_body time tf b i st = Inr st1" and p: "points st1 = points st @ [p]"
      by auto
    have "1 \<le> i + 1" "int (length (points st1)) = i + 1" using 1(2,3) p by auto
    from 1(1)[OF True b this] obtain st' where
      r: "wlc_loop time tf b len (i + 1) st1 = Inr st'"
      and l: "int (length (points st')) = max (i + 1) len"
      and t: "take (length (points st1)) (points st') = points st1" by blast
    have "take (length (points st)) (points st') = take (length (points st)) (take (length (points st1)) (points st'))"
      using p by (simp add: min_def)
    also have "\<dots> = points st" using t p by simp
    finally have t': "take (length (points st)) (points st') = points st" .
    have "wlc_loop time tf b len i st = Inr st'"
      using True b r by (subst wlc_loop.simps) simp
    then show ?thesis using l t' True by auto
  qed
qed

lemma wlc_loop_done: "len \<le> i \<Longrightarrow> wlc_loop time tf b len i st = Inr st"
  by (simp add: wlc_loop.simps)

lemma wlc_loop_split:
  "i \<le> m \<Longrightarrow> m \<le> n \<Longrightarrow>
   wlc_loop time tf b n i st =
     (case wlc_loop time tf b m i st of Inl e \<Rightarrow> Inl e | Inr st' \<Rightarrow> wlc_loop time tf b n m st')"
proof (induction time tf b m i st rule: wlc_loop.induct)
  case (1 time tf b m i st)
  show ?case
  proof (cases "i < m")
    case False
    then have "i = m" using 1(2) by simp
    then show ?thesis by (simp add: wlc_loop.simps[of time tf b m m])
  next
    case True
    then have in': "i < n" using 1(3) by simp
    show ?thesis
    proof (cases "loop_body time tf b i st")
      case (Inl e)
      then show ?thesis using True in'
        by (simp add: wlc_loop.simps[of time tf b n i] wlc_loop.simps[of time tf b m i])
    next
      case (Inr st1)
      have "wlc_loop time tf b n (i + 1) st1 =
        (case wlc_loop time tf b m (i + 1) st1 of Inl e \<Rightarrow> Inl e | Inr st' \<Rightarrow> wlc_loop time tf b n m st')"
        using 1(1)[OF True Inr] True 1(3) by simp
      then show ?thesis using True in' Inr
        by (simp add: wlc_loop.simps[of time tf b n i] wlc_loop.simps[of time tf b m i])
    qed
  qed
qed

lemma state_after_0: "state_after time tf b ext 0 = Inr (wlc_init ext)"
  by (simp add: state_after_def wlc_loop.simps)

lemma state_after_step:
  assumes "0 \<le> k"
  shows "state_after time tf b ext (k + 1) =
     (case state_after time tf b ext k of Inl e \<Rightarrow> Inl e | Inr st \<Rightarrow> loop_body time tf b (k + 1) st)"
proof -
  have one: "wlc_loop time tf b (k + 1 + 1) (k + 1) st = loop_body time tf b (k + 1) st" for st
    by (subst wlc_loop.simps) (auto simp: wlc_loop_done split: sum.splits)
  have "wlc_loop time tf b (k + 1 + 1) 1 (wlc_init ext) =
     (case wlc_loop time tf b (k + 1) 1 (wlc_init ext) of Inl e \<Rightarrow> Inl e
      | Inr st' \<Rightarrow> wlc_loop time tf b (k + 1 + 1) (k + 1) st')"
    using assms by (intro wlc_loop_split) auto
  then show ?thesis
    unfolding state_after_def one .
qed

lemma state_after_ok:
  assumes "0 \<le> k"
  shows "\<exists>st. state_after time tf b ext k = Inr st \<and> int (length (points st)) = k + 1"
proof -
  have "\<exists>st'. wlc_loop time tf b (k + 1) 1 (wlc_init ext) = Inr st' \<and>
         int (length (points st')) = max 1 (k + 1) \<and>
         take (length (points (wlc_init ext))) (points st') = points (wlc_init ext)"
    by (rule wlc_loop_Inr) (simp_all add: wlc_init_def)
  then show ?thesis using assms by (auto simp: state_after_def max_def)
qed

lemma wlc_loop_through:
  assumes "0 \<le> k" "k < len" "state_after time tf b ext k = Inr st"
  shows "wlc_loop time tf b len 1 (wlc_init ext) = wlc_loop time tf b len (k + 1) st"
proof -
  have "wlc_loop time tf b len 1 (wlc_init ext) =
     (case wlc_loop time tf b (k + 1) 1 (wlc_init ext) of Inl e \<Rightarrow> Inl e
      | Inr st' \<Rightarrow> wlc_loop time tf b len (k + 1) st')"
    using assms(1,2) by (intro wlc_loop_split) auto
  then show ?thesis using assms(3) by (simp add: state_after_def)
qed

lemma calc_Inr:
  "\<exists>pts. calculateWLCChain len pl temp time b noise ext = Inr pts \<and>
     int (length pts) = max 1 len \<and> take 1 pts = [(Fin 0, Fin 0, Fin 0)]"
proof -
  have "\<exists>st'. wlc_loop time (thermalFluctuation pl temp noise) b len 1 (wlc_init ext) = Inr st' \<and>
         int (length (points st')) = max 1 len \<and>
         take (length (points (wlc_init ext))) (points st') = points (wlc_init ext)"
    by (rule wlc_loop_Inr) (simp_all add: wlc_init_def)
  then show ?thesis by (auto simp: calculateWLCChain_def wlc_init_def)
qed

lemma calc_prefix:
  assumes "0 \<le> k" "k < len"
    and "state_after time (thermalFluctuation pl temp noise) b ext k = Inr st"
    and "calculateWLCChain len pl temp time b noise ext = Inr pts"
  shows "take (nat k + 1) pts = points st"
proof -
  from state_after_ok[OF assms(1), of time "thermalFluctuation pl temp noise" b ext] assms(3)
  have l: "int (length (points st)) = k + 1" by auto
  have "\<exists>st'. wlc_loop time (thermalFluctuation pl temp noise) b len (k + 1) st = Inr st' \<and>
         int (length (points st')) = max (k + 1) len \<and>
         take (length (points st)) (points st') = points st"
    by (rule wlc_loop_Inr) (use assms(1) l in auto)
  then obtain st' where r: "wlc_loop time (thermalFluctuation pl temp noise) b len (k + 1) st = Inr st'"
    and t: "take (length (points st)) (points st') = points st" by blast
  have "wlc_loop time (thermalFluctuation pl temp noise) b len 1 (wlc_init ext) = Inr st'"
    using wlc_loop_through[OF assms(1,2,3)] r by simp
  then have "pts = points st'" using assms(4) by (simp add: calculateWLCChain_def)
  moreover have "length (points st) = nat k + 1" using l assms(1) by auto
  ultimately show ?thesis using t by simp
qed

section \<open>The claims\<close>

text \<open>
  C2, the literal scenario: \<^verbatim>\<open>calculateWLCChain(3, 50, 300, 0, 1, 0, {x: 0, y: 0, z: 0})\<close>
  returns exactly the three points \<open>(0,0,0)\<close>, \<open>(1,0,0)\<close>, \<open>(2,0,0)\<close>.
\<close>

theorem literal_scenario:
  "calculateWLCChain 3 (Fin 50) (Fin 300) (Fin 0) (Fin 1) (Fin 0) (Vector3 (Fin 0) (Fin 0) (Fin 0))
     = Inr [(Fin 0, Fin 0, Fin 0), (Fin 1, Fin 0, Fin 0), (Fin 2, Fin 0, Fin 0)]"
  by (simp add: calculateWLCChain_def wlc_loop.simps loop_body_def normalized_direction_def
      wlc_init_def v_normalize_def v_add_def v_length_def
      v_divideScalar_def v_multiplyScalar_def js_or_def js_index_def add_direction_def Let_def
      js_evaluate)

text \<open>
  C3, the output length: for an integer length of at least 1 and any values of the other
  six arguments, the call returns (it does not throw) a sequence of exactly \<open>length\<close>
  points.
\<close>

theorem output_length:
  assumes "1 \<le> len"
  shows "\<exists>pts. calculateWLCChain len persistenceLength temperature time bendingRigidity
                 noiseLevel externalForce = Inr pts \<and> int (length pts) = len"
  using calc_Inr[of len persistenceLength temperature time bendingRigidity noiseLevel externalForce]
    assms by auto

theorem output_length_witness:
  "(1::int) \<le> 200 \<and>
   (\<exists>pts. calculateWLCChain 200 (Fin 50) (Fin 300) (Fin 0.01) (Fin 1) (Fin 1)
            (Vector3 (Fin 0) (Fin 0) (Fin 0)) = Inr pts \<and> int (length pts) = 200)"
  using output_length[of 200 "Fin 50" "Fin 300" "Fin 0.01" "Fin 1" "Fin 1"
      "Vector3 (Fin 0) (Fin 0) (Fin 0)"]
  by simp

text \<open>
  C4, the origin anchor: for every value of the seven arguments the call returns a
  sequence whose first element is the point \<open>(0,0,0)\<close>.
\<close>

theorem origin_anchor:
  "\<exists>pts. calculateWLCChain len persistenceLength temperature time bendingRigidity
            noiseLevel externalForce = Inr pts \<and> pts \<noteq> [] \<and> pts ! 0 = (Fin 0, Fin 0, Fin 0)"
proof -
  obtain pts where r: "calculateWLCChain len persistenceLength temperature time bendingRigidity
            noiseLevel externalForce = Inr pts" and t: "take 1 pts = [(Fin 0, Fin 0, Fin 0)]"
    using calc_Inr[of len persistenceLength temperature time bendingRigidity noiseLevel
        externalForce] by blast
  from t have "pts \<noteq> []" by auto
  moreover from t have "pts ! 0 = (Fin 0, Fin 0, Fin 0)"
    by (cases pts) auto
  ultimately show ?thesis using r by blast
qed

subsection \<open>The force along the chain\<close>

lemma wlc_init_force: "force (wlc_init ext) = ext"
  by (cases ext) (simp add: wlc_init_def)

lemma state_after_Suc:
  "state_after time tf b ext (int (Suc n)) =
     (case state_after time tf b ext (int n) of Inl e \<Rightarrow> Inl e
      | Inr st \<Rightarrow> loop_body time tf b (int (Suc n)) st)"
proof -
  have e: "int (Suc n) = int n + 1" by simp
  show ?thesis unfolding e by (rule state_after_step) simp
qed

lemma state_after_body:
  assumes "state_after time tf b ext (int n) = Inr st"
  shows "state_after time tf b ext (int (Suc n)) =
     Inr \<lparr>direction = v_add (normalized_direction time tf (int (Suc n)) (direction st))
                        (v_multiplyScalar (force st) (js_div (Fin 1) b)),
          force = v_multiplyScalar (force st) (js_div (Fin 1) b),
          points = points st @ [add_direction (last (points st))
             (v_add (normalized_direction time tf (int (Suc n)) (direction st))
                        (v_multiplyScalar (force st) (js_div (Fin 1) b)))]\<rparr>"
proof -
  from state_after_ok[of "int n" time tf b ext] assms
  have l: "int (length (points st)) = int n + 1" by auto
  have "loop_body time tf b (int (Suc n)) st = Inr \<lparr>direction = v_add (normalized_direction time tf (int (Suc n)) (direction st))
                        (v_multiplyScalar (force st) (js_div (Fin 1) b)),
          force = v_multiplyScalar (force st) (js_div (Fin 1) b),
          points = points st @ [add_direction (last (points st))
             (v_add (normalized_direction time tf (int (Suc n)) (direction st))
                        (v_multiplyScalar (force st) (js_div (Fin 1) b)))]\<rparr>"
    by (rule loop_body_Inr) (use l in auto)
  then show ?thesis by (simp only: state_after_Suc assms sum.case)
qed

lemma force_iterated:
  "state_after time tf b ext (int n) = Inr st \<Longrightarrow>
   force st = ((\<lambda>v. v_multiplyScalar v (js_div (Fin 1) b)) ^^ n) ext"
proof (induction n arbitrary: st)
  case 0
  then show ?case by (auto simp: state_after_0 wlc_init_force)
next
  case (Suc n)
  obtain st0 where s0: "state_after time tf b ext (int n) = Inr st0"
    using state_after_ok[of "int n" time tf b ext] by auto
  have "force st = v_multiplyScalar (force st0) (js_div (Fin 1) b)"
    using state_after_body[OF s0] Suc.prems by auto
  then show ?case using Suc.IH[OF s0] by simp
qed

lemma halves:
  assumes "\<bar>m\<bar> < 2 ^ 53"
  shows "((\<lambda>v. v_multiplyScalar v (js_div (Fin 1) (Fin 2))) ^^ n)
       (Vector3 (Fin (of_int m)) (Fin 0) (Fin 0)) =
     Vector3 (Fin (of_int m / 2 ^ n)) (Fin 0) (Fin 0)"
proof (induction n)
  case 0
  then show ?case by simp
next
  case (Suc n)
  have "\<bar>m\<bar> \<le> 2 ^ 53" using assms by simp
  then have "real_of_int \<bar>m\<bar> \<le> real_of_int (2 ^ 53)" by (rule of_int_le_iff[THEN iffD2])
  then have "\<bar>real_of_int m\<bar> \<le> 2 ^ 53" by simp
  moreover have "(2::real) ^ 53 \<le> 2 ^ 1023" by (rule power_increasing) simp_all
  moreover have "\<bar>real_of_int m / 2 ^ n * (1 / 2)\<bar> \<le> \<bar>real_of_int m\<bar>"
  proof -
    have "\<bar>real_of_int m / 2 ^ n * (1 / 2)\<bar> = \<bar>real_of_int m\<bar> / 2 ^ Suc n"
      by (simp add: abs_mult abs_divide)
    also have "\<dots> \<le> \<bar>real_of_int m\<bar> / 1"
    proof (intro divide_left_mono)
      show "(1::real) \<le> 2 ^ Suc n" by (rule one_le_power) simp
    qed simp_all
    finally show ?thesis by simp
  qed
  ultimately have r: "\<bar>real_of_int m / 2 ^ n * (1 / 2)\<bar> \<le> 2 ^ 1023" by linarith
  have h: "js_div (Fin 1) (Fin 2) = Fin (1 / 2)" by simp
  have "js_mul (Fin (real_of_int m / 2 ^ n)) (Fin (1 / 2)) = Fin (real_of_int m / 2 ^ n * (1 / 2))"
    using r by (simp only: js_mul.simps js_finite_result_Fin)
  then show ?case
    using Suc.IH by (simp add: v_multiplyScalar_def h)
qed


lemma halving_run:
  "state_after (Fin 0) (thermalFluctuation (Fin 50) (Fin 300) (Fin 0)) (Fin 2)
       (Vector3 (Fin 2) (Fin 0) (Fin 0)) 2 =
     Inr \<lparr>direction = Vector3 (Fin 1.5) (Fin 0) (Fin 0),
          force = Vector3 (Fin 0.5) (Fin 0) (Fin 0),
          points = [(Fin 0, Fin 0, Fin 0), (Fin 2, Fin 0, Fin 0), (Fin 3.5, Fin 0, Fin 0)]\<rparr>"
  by (simp add: state_after_def wlc_loop.simps loop_body_def normalized_direction_def
      wlc_init_def v_normalize_def v_add_def v_length_def
      v_divideScalar_def v_multiplyScalar_def js_or_def js_index_def add_direction_def Let_def
      js_evaluate)

text \<open>
  C1 as amended, the force along the chain: the vector \<^verbatim>\<open>force\<close> is a copy of
  \<^verbatim>\<open>externalForce\<close> that line 43 scales in place by \<^verbatim>\<open>1 / bendingRigidity\<close> at every
  step and never resets. For every call and every step \<open>i\<close> from 1 to
  \<open>length - 1\<close>, with \<open>st0\<close> and \<open>st1\<close> the loop variables before and after step \<open>i\<close> of
  the call with the bound \<open>len\<close>: \<^verbatim>\<open>force\<close> after step \<open>i\<close> is \<^verbatim>\<open>externalForce\<close> after
  \<open>i\<close> successive \<^verbatim>\<open>multiplyScalar(1 / bendingRigidity)\<close>, and the direction after step
  \<open>i\<close> is the normalized direction plus that vector. Where every product is exact in
  double precision the decay is the geometric one: for the bending rigidity 2, an
  \<^verbatim>\<open>externalForce = (m, 0, 0)\<close> with an integer \<open>m\<close> below \<open>2 ^ 53\<close> in magnitude and
  \<open>i \<le> 1000\<close> the vector is \<open>(m / 2 ^ i, 0, 0)\<close>. With \<^verbatim>\<open>externalForce = (2, 0, 0)\<close>,
  the bending rigidity 2 and no noise, after step 2 the force is \<open>(0.5, 0, 0)\<close>, the
  direction \<open>(1.5, 0, 0)\<close> and the points \<open>(0,0,0)\<close>, \<open>(2,0,0)\<close>, \<open>(3.5,0,0)\<close>.
\<close>

theorem force_scaled_in_place:
  assumes "1 \<le> i" "int i < len"
  shows "(\<exists>st0 st1.
     state_after time (thermalFluctuation persistenceLength temperature noiseLevel)
       bendingRigidity externalForce (int i - 1) = Inr st0 \<and>
     state_after time (thermalFluctuation persistenceLength temperature noiseLevel)
       bendingRigidity externalForce (int i) = Inr st1 \<and>
     wlc_loop time (thermalFluctuation persistenceLength temperature noiseLevel)
         bendingRigidity len 1 (wlc_init externalForce) =
       wlc_loop time (thermalFluctuation persistenceLength temperature noiseLevel)
         bendingRigidity len (int i + 1) st1 \<and>
     force st1 =
       ((\<lambda>v. v_multiplyScalar v (js_div (Fin 1) bendingRigidity)) ^^ i) externalForce \<and>
     direction st1 =
       v_add (normalized_direction time
                (thermalFluctuation persistenceLength temperature noiseLevel) (int i)
                (direction st0))
         (force st1) \<and>
     (bendingRigidity = Fin 2 \<and> externalForce = Vector3 (Fin (of_int m)) (Fin 0) (Fin 0) \<and>
      \<bar>m\<bar> < 2 ^ 53 \<and> i \<le> 1000 \<longrightarrow>
        force st1 = Vector3 (Fin (of_int m / 2 ^ i)) (Fin 0) (Fin 0))) \<and>
   state_after (Fin 0) (thermalFluctuation (Fin 50) (Fin 300) (Fin 0)) (Fin 2)
       (Vector3 (Fin 2) (Fin 0) (Fin 0)) 2 =
     Inr \<lparr>direction = Vector3 (Fin 1.5) (Fin 0) (Fin 0),
          force = Vector3 (Fin 0.5) (Fin 0) (Fin 0),
          points = [(Fin 0, Fin 0, Fin 0), (Fin 2, Fin 0, Fin 0), (Fin 3.5, Fin 0, Fin 0)]\<rparr>"
proof -
  define tf where "tf = thermalFluctuation persistenceLength temperature noiseLevel"
  obtain n where n: "i = Suc n" using assms(1) by (cases i) auto
  obtain st0 where s0: "state_after time tf bendingRigidity externalForce (int n) = Inr st0"
    using state_after_ok[of "int n" time tf bendingRigidity externalForce] by auto
  obtain st1 where s1: "state_after time tf bendingRigidity externalForce (int i) = Inr st1"
    using state_after_ok[of "int i" time tf bendingRigidity externalForce] by auto
  have f1: "force st1 =
      ((\<lambda>v. v_multiplyScalar v (js_div (Fin 1) bendingRigidity)) ^^ i) externalForce"
    by (rule force_iterated[OF s1])
  have d1: "direction st1 =
      v_add (normalized_direction time tf (int i) (direction st0)) (force st1)"
    using state_after_body[OF s0] s1 n by auto
  have th: "wlc_loop time tf bendingRigidity len 1 (wlc_init externalForce) =
       wlc_loop time tf bendingRigidity len (int i + 1) st1"
    by (rule wlc_loop_through[OF _ assms(2) s1]) simp
  have s0': "state_after time tf bendingRigidity externalForce (int i - 1) = Inr st0"
    using s0 n by simp
  have two: "bendingRigidity = Fin 2 \<and> externalForce = Vector3 (Fin (of_int m)) (Fin 0) (Fin 0) \<and>
      \<bar>m\<bar> < 2 ^ 53 \<and> i \<le> 1000 \<longrightarrow>
        force st1 = Vector3 (Fin (of_int m / 2 ^ i)) (Fin 0) (Fin 0)"
    using f1 halves[of m i] by auto
  have general: "\<exists>st0 st1.
     state_after time tf bendingRigidity externalForce (int i - 1) = Inr st0 \<and>
     state_after time tf bendingRigidity externalForce (int i) = Inr st1 \<and>
     wlc_loop time tf bendingRigidity len 1 (wlc_init externalForce) =
       wlc_loop time tf bendingRigidity len (int i + 1) st1 \<and>
     force st1 =
       ((\<lambda>v. v_multiplyScalar v (js_div (Fin 1) bendingRigidity)) ^^ i) externalForce \<and>
     direction st1 = v_add (normalized_direction time tf (int i) (direction st0)) (force st1) \<and>
     (bendingRigidity = Fin 2 \<and> externalForce = Vector3 (Fin (of_int m)) (Fin 0) (Fin 0) \<and>
      \<bar>m\<bar> < 2 ^ 53 \<and> i \<le> 1000 \<longrightarrow>
        force st1 = Vector3 (Fin (of_int m / 2 ^ i)) (Fin 0) (Fin 0))"
    using s0' s1 th f1 d1 two by blast
  show ?thesis
    using general[unfolded tf_def] halving_run by (intro conjI)
qed

theorem force_scaled_in_place_witness:
  "(1::nat) \<le> 2 \<and> int 2 < 3 \<and> \<bar>2::int\<bar> < 2 ^ 53 \<and> (2::nat) \<le> 1000 \<and>
   (\<exists>st1. state_after (Fin 0) (thermalFluctuation (Fin 50) (Fin 300) (Fin 0)) (Fin 2)
             (Vector3 (Fin 2) (Fin 0) (Fin 0)) (int 2) = Inr st1 \<and>
          force st1 = Vector3 (Fin 0.5) (Fin 0) (Fin 0))"
proof -
  have h: "(1::nat) \<le> 2" "int 2 < 3" by simp_all
  have k: "\<bar>2::int\<bar> < 2 ^ 53" "(2::nat) \<le> 1000" by simp_all
  from force_scaled_in_place[OF h, of "Fin 0" "Fin 50" "Fin 300" "Fin 0" "Fin 2"
      "Vector3 (Fin 2) (Fin 0) (Fin 0)" 2]
  obtain st1 where s: "state_after (Fin 0) (thermalFluctuation (Fin 50) (Fin 300) (Fin 0)) (Fin 2)
             (Vector3 (Fin 2) (Fin 0) (Fin 0)) (int 2) = Inr st1"
    and f: "Fin 2 = Fin 2 \<and> Vector3 (Fin 2) (Fin 0) (Fin 0) = Vector3 (Fin (of_int 2)) (Fin 0) (Fin 0) \<and>
      \<bar>2::int\<bar> < 2 ^ 53 \<and> (2::nat) \<le> 1000 \<longrightarrow>
        force st1 = Vector3 (Fin (of_int 2 / 2 ^ 2)) (Fin 0) (Fin 0)"
    by blast
  have "force st1 = Vector3 (Fin (of_int 2 / 2 ^ 2)) (Fin 0) (Fin 0)"
    using f k by simp
  then have "force st1 = Vector3 (Fin 0.5) (Fin 0) (Fin 0)" by simp
  then show ?thesis using h k s by blast
qed

text \<open>
  C1 as stated fails: the bending rigidity \<open>2 ^ - 1074\<close>, the smallest positive double, is
  not 0, but \<^verbatim>\<open>1 / bendingRigidity\<close> is \<open>+Infinity\<close>; with \<^verbatim>\<open>externalForce = (1, 0, 0)\<close>
  and no noise the vector added at step 1 is \<open>(+Infinity, NaN, NaN)\<close>, whose second and
  third components are not 0.
\<close>

theorem force_decay_counterexample:
  "(1 / 2 ^ 1074 :: real) \<noteq> 0 \<and>
   state_after (Fin 0) (thermalFluctuation (Fin 50) (Fin 300) (Fin 0)) (Fin (1 / 2 ^ 1074))
       (Vector3 (Fin 1) (Fin 0) (Fin 0)) 1 =
     Inr \<lparr>direction = Vector3 PInf NaN NaN, force = Vector3 PInf NaN NaN,
          points = [(Fin 0, Fin 0, Fin 0), (PInf, NaN, NaN)]\<rparr>"
  by (simp add: state_after_def wlc_loop.simps loop_body_def normalized_direction_def
      wlc_init_def v_normalize_def v_add_def v_length_def
      v_divideScalar_def v_multiplyScalar_def js_or_def js_index_def add_direction_def Let_def
      js_evaluate js_inf_def)

subsection \<open>Segments and the running direction\<close>

lemma calc_nth:
  assumes "int k < len"
    and "state_after time (thermalFluctuation pl temp noise) b ext (int k) = Inr st"
    and "calculateWLCChain len pl temp time b noise ext = Inr pts"
  shows "pts ! k = last (points st)"
proof -
  have t: "take (nat (int k) + 1) pts = points st"
    by (rule calc_prefix[OF _ assms(1) assms(2) assms(3)]) simp
  from state_after_ok[of "int k" time "thermalFluctuation pl temp noise" b ext] assms(2)
  have l: "length (points st) = k + 1" by auto
  have "points st \<noteq> []" using l by auto
  then have "last (points st) = points st ! k" using l by (simp add: last_conv_nth)
  also have "\<dots> = take (k + 1) pts ! k" using t by simp
  also have "\<dots> = pts ! k" by simp
  finally show ?thesis by simp
qed

lemma short_run:
  "calculateWLCChain 2 (Fin 50) (Fin 300) (Fin 0) (Fin 1) (Fin 0) ext =
     Inr [(Fin 0, Fin 0, Fin 0),
          add_direction (Fin 0, Fin 0, Fin 0) (v_add (Vector3 (Fin 1) (Fin 0) (Fin 0))
             (v_multiplyScalar ext (Fin 1)))]"
  by (cases ext) (simp add: calculateWLCChain_def wlc_loop.simps loop_body_def normalized_direction_def
      wlc_init_def v_normalize_def v_add_def v_length_def
      v_divideScalar_def v_multiplyScalar_def js_or_def js_index_def add_direction_def Let_def
      js_evaluate)

text \<open>
  C6 as amended, the segments: for every call and every index \<open>i\<close> from 1 to
  \<open>length - 1\<close>, \<^verbatim>\<open>points[i]\<close> is the componentwise sum, as the code computes it, of
  \<^verbatim>\<open>points[i - 1]\<close> and the running direction as the force term of step \<open>i\<close> leaves it,
  and that direction is the normalized direction plus the scaled force, not normalized
  again. The length of a segment is not fixed: with \<^verbatim>\<open>externalForce = (1, 0, 0)\<close>, the
  bending rigidity 1 and no noise the call with the length 2 returns \<open>(0,0,0)\<close>,
  \<open>(2,0,0)\<close>, a segment of the length 2.
\<close>

theorem segment_adds_direction:
  assumes "1 \<le> i" "int i < len"
  shows "(\<exists>pts st0 st1.
     calculateWLCChain len persistenceLength temperature time bendingRigidity noiseLevel
       externalForce = Inr pts \<and>
     state_after time (thermalFluctuation persistenceLength temperature noiseLevel)
       bendingRigidity externalForce (int i - 1) = Inr st0 \<and>
     state_after time (thermalFluctuation persistenceLength temperature noiseLevel)
       bendingRigidity externalForce (int i) = Inr st1 \<and>
     direction st1 =
       v_add (normalized_direction time
                (thermalFluctuation persistenceLength temperature noiseLevel) (int i)
                (direction st0))
         (force st1) \<and>
     pts ! i = add_direction (pts ! (i - 1)) (direction st1)) \<and>
   calculateWLCChain 2 (Fin 50) (Fin 300) (Fin 0) (Fin 1) (Fin 0) (Vector3 (Fin 1) (Fin 0) (Fin 0))
     = Inr [(Fin 0, Fin 0, Fin 0), (Fin 2, Fin 0, Fin 0)] \<and>
   v_length (segment [(Fin 0, Fin 0, Fin 0), (Fin 2, Fin 0, Fin 0)] 1) = Fin 2"
proof -
  define tf where "tf = thermalFluctuation persistenceLength temperature noiseLevel"
  obtain n where n: "i = Suc n" using assms(1) by (cases i) auto
  obtain pts where c: "calculateWLCChain len persistenceLength temperature time bendingRigidity
      noiseLevel externalForce = Inr pts"
    using calc_Inr[of len persistenceLength temperature time bendingRigidity noiseLevel
        externalForce] by blast
  obtain st0 where s0: "state_after time tf bendingRigidity externalForce (int n) = Inr st0"
    using state_after_ok[of "int n" time tf bendingRigidity externalForce] by auto
  obtain st1 where s1: "state_after time tf bendingRigidity externalForce (int i) = Inr st1"
    using state_after_ok[of "int i" time tf bendingRigidity externalForce] by auto
  note b = state_after_body[OF s0]
  have d1: "direction st1 = v_add (normalized_direction time tf (int i) (direction st0)) (force st1)"
    using b s1 n by auto
  have l1: "last (points st1) = add_direction (last (points st0)) (direction st1)"
    using b s1 n by auto
  have p1: "pts ! i = last (points st1)"
    by (rule calc_nth[OF assms(2) s1[unfolded tf_def] c])
  have "int n < len" using assms(2) n by simp
  then have p0: "pts ! n = last (points st0)"
    by (rule calc_nth[OF _ s0[unfolded tf_def] c])
  have step: "pts ! i = add_direction (pts ! (i - 1)) (direction st1)"
    using p1 p0 l1 n by simp
  have s0': "state_after time tf bendingRigidity externalForce (int i - 1) = Inr st0"
    using s0 n by simp
  have general: "\<exists>pts st0 st1.
     calculateWLCChain len persistenceLength temperature time bendingRigidity noiseLevel
       externalForce = Inr pts \<and>
     state_after time tf bendingRigidity externalForce (int i - 1) = Inr st0 \<and>
     state_after time tf bendingRigidity externalForce (int i) = Inr st1 \<and>
     direction st1 = v_add (normalized_direction time tf (int i) (direction st0)) (force st1) \<and>
     pts ! i = add_direction (pts ! (i - 1)) (direction st1)"
    using c s0' s1 d1 step by blast
  have run: "calculateWLCChain 2 (Fin 50) (Fin 300) (Fin 0) (Fin 1) (Fin 0)
      (Vector3 (Fin 1) (Fin 0) (Fin 0)) = Inr [(Fin 0, Fin 0, Fin 0), (Fin 2, Fin 0, Fin 0)]"
    by (simp add: short_run add_direction_def v_add_def v_multiplyScalar_def)
  have seg: "v_length (segment [(Fin 0, Fin 0, Fin 0), (Fin 2, Fin 0, Fin 0)] 1) = Fin 2"
    by (simp add: segment_def v_length_def)
  show ?thesis
    using general[unfolded tf_def] run seg by (intro conjI)
qed

theorem segment_adds_direction_witness:
  "(1::nat) \<le> 1 \<and> int 1 < 2 \<and>
   (\<exists>pts st1. calculateWLCChain 2 (Fin 50) (Fin 300) (Fin 0) (Fin 1) (Fin 0)
             (Vector3 (Fin 1) (Fin 0) (Fin 0)) = Inr pts \<and>
      state_after (Fin 0) (thermalFluctuation (Fin 50) (Fin 300) (Fin 0)) (Fin 1)
             (Vector3 (Fin 1) (Fin 0) (Fin 0)) (int 1) = Inr st1 \<and>
      pts ! 1 = add_direction (pts ! (1 - 1)) (direction st1))"
proof -
  have h: "(1::nat) \<le> 1" "int 1 < 2" by simp_all
  from segment_adds_direction[OF h, of "Fin 50" "Fin 300" "Fin 0" "Fin 1" "Fin 0"
      "Vector3 (Fin 1) (Fin 0) (Fin 0)"]
  show ?thesis using h by blast
qed

text \<open>
  C6 as stated fails: with a zero external force the segment from \<^verbatim>\<open>points[0]\<close> to
  \<^verbatim>\<open>points[1]\<close> has the length 1.
\<close>

theorem segment_unit_counterexample:
  "calculateWLCChain 2 (Fin 50) (Fin 300) (Fin 0) (Fin 1) (Fin 0) (Vector3 (Fin 0) (Fin 0) (Fin 0))
     = Inr [(Fin 0, Fin 0, Fin 0), (Fin 1, Fin 0, Fin 0)] \<and>
   v_length (segment [(Fin 0, Fin 0, Fin 0), (Fin 1, Fin 0, Fin 0)] 1) = Fin 1"
  by (simp add: short_run add_direction_def v_add_def v_multiplyScalar_def segment_def v_length_def)

subsection \<open>A zero bending rigidity\<close>

lemma js_mul_PInf_nonfinite: "\<not> js_isFinite (js_mul a PInf)"
  by (cases a) (simp_all add: js_inf_def)

lemma js_add_nonfinite: "\<not> js_isFinite b \<Longrightarrow> \<not> js_isFinite (js_add a b)"
  by (cases a; cases b) simp_all

lemma add_direction_nonfinite:
  assumes "\<not> js_isFinite (vec_x d)" "\<not> js_isFinite (vec_y d)" "\<not> js_isFinite (vec_z d)"
  shows "point_nonfinite (add_direction p d)"
  using assms by (cases p) (simp add: point_nonfinite_def add_direction_def js_add_nonfinite)

lemma zero_rigidity_points:
  "state_after time tf (Fin 0) ext (int n) = Inr st \<Longrightarrow>
   1 \<le> j \<Longrightarrow> j < length (points st) \<Longrightarrow> point_nonfinite (points st ! j)"
proof (induction n arbitrary: st j)
  case 0
  then show ?case by (auto simp: state_after_0 wlc_init_def)
next
  case (Suc n)
  obtain st0 where s0: "state_after time tf (Fin 0) ext (int n) = Inr st0"
    using state_after_ok[of "int n" time tf "Fin 0" ext] by auto
  define f1 where "f1 = v_multiplyScalar (force st0) (js_div (Fin 1) (Fin 0))"
  define d2 where "d2 = v_add (normalized_direction time tf (int (Suc n)) (direction st0)) f1"
  have pts: "points st = points st0 @ [add_direction (last (points st0)) d2]"
    using state_after_body[OF s0] Suc.prems(1) by (auto simp: d2_def f1_def)
  have nf: "\<not> js_isFinite (vec_x f1)" "\<not> js_isFinite (vec_y f1)" "\<not> js_isFinite (vec_z f1)"
    by (simp_all add: f1_def v_multiplyScalar_def js_inf_def js_mul_PInf_nonfinite)
  have nd: "\<not> js_isFinite (vec_x d2)" "\<not> js_isFinite (vec_y d2)" "\<not> js_isFinite (vec_z d2)"
    using nf by (simp_all add: d2_def v_add_def js_add_nonfinite)
  show ?case
  proof (cases "j < length (points st0)")
    case True
    then show ?thesis using Suc.IH[OF s0 Suc.prems(2) True] pts by (simp add: nth_append)
  next
    case False
    then have "j = length (points st0)" using Suc.prems(3) pts by simp
    then show ?thesis using pts add_direction_nonfinite[OF nd] by (simp add: nth_append)
  qed
qed

lemma calc_state_after:
  assumes "1 \<le> len"
  shows "calculateWLCChain len pl temp time b noise ext =
     (case state_after time (thermalFluctuation pl temp noise) b ext (len - 1) of
        Inl e \<Rightarrow> Inl e | Inr st \<Rightarrow> Inr (points st))"
  by (simp add: calculateWLCChain_def state_after_def)

lemma zero_rigidity_run:
  "calculateWLCChain 2 (Fin 50) (Fin 300) (Fin 0) (Fin 0) (Fin 0) (Vector3 (Fin 1) (Fin 0) (Fin (- 1)))
     = Inr [(Fin 0, Fin 0, Fin 0), (PInf, NaN, NInf)]"
  by (simp add: calculateWLCChain_def wlc_loop.simps loop_body_def normalized_direction_def
      wlc_init_def v_normalize_def v_add_def v_length_def
      v_divideScalar_def v_multiplyScalar_def js_or_def js_index_def add_direction_def Let_def
      js_evaluate
      js_inf_def)

text \<open>
  C7, the degeneracy tolerance: the call never throws, whatever the seven numbers are; and
  with the bending rigidity 0 and a length of at least 1 it returns \<open>length\<close> points of
  which every one from the index 1 on has only non-finite coordinates (an infinity or
  NaN).
\<close>

theorem degeneracy_tolerance:
  "(\<exists>pts. calculateWLCChain len persistenceLength temperature time bendingRigidity noiseLevel
            externalForce = Inr pts) \<and>
   (1 \<le> len \<longrightarrow>
     (\<exists>pts. calculateWLCChain len persistenceLength temperature time (Fin 0) noiseLevel
              externalForce = Inr pts \<and>
        int (length pts) = len \<and>
        (\<forall>j. 1 \<le> j \<and> j < length pts \<longrightarrow> point_nonfinite (pts ! j))))"
proof -
  define tf where "tf = thermalFluctuation persistenceLength temperature noiseLevel"
  have a: "\<exists>pts. calculateWLCChain len persistenceLength temperature time bendingRigidity
      noiseLevel externalForce = Inr pts"
    using calc_Inr[of len persistenceLength temperature time bendingRigidity noiseLevel
        externalForce] by blast
  have b: "\<exists>pts. calculateWLCChain len persistenceLength temperature time (Fin 0) noiseLevel
              externalForce = Inr pts \<and>
        int (length pts) = len \<and>
        (\<forall>j. 1 \<le> j \<and> j < length pts \<longrightarrow> point_nonfinite (pts ! j))" if l: "1 \<le> len"
  proof -
    obtain pts where c: "calculateWLCChain len persistenceLength temperature time (Fin 0)
        noiseLevel externalForce = Inr pts" and n: "int (length pts) = max 1 len"
      using calc_Inr[of len persistenceLength temperature time "Fin 0" noiseLevel externalForce]
      by blast
    obtain m where m: "len - 1 = int m" using l by (metis diff_ge_0_iff_ge nonneg_int_cases)
    obtain st where s: "state_after time tf (Fin 0) externalForce (int m) = Inr st"
      using state_after_ok[of "int m" time tf "Fin 0" externalForce] by auto
    have "pts = points st"
      using c s m calc_state_after[OF l, of persistenceLength temperature time "Fin 0" noiseLevel
          externalForce] by (simp add: tf_def)
    then have "\<forall>j. 1 \<le> j \<and> j < length pts \<longrightarrow> point_nonfinite (pts ! j)"
      using zero_rigidity_points[OF s] by simp
    then show ?thesis using c n l by auto
  qed
  show ?thesis using a b by blast
qed

theorem degeneracy_tolerance_witness:
  "(1::int) \<le> 2 \<and>
   calculateWLCChain 2 (Fin 50) (Fin 300) (Fin 0) (Fin 0) (Fin 0)
       (Vector3 (Fin 1) (Fin 0) (Fin (- 1))) = Inr [(Fin 0, Fin 0, Fin 0), (PInf, NaN, NInf)] \<and>
   (1::nat) \<le> 1 \<and> 1 < length [(Fin 0, Fin 0, Fin 0), (PInf, NaN, NInf)] \<and>
   point_nonfinite ([(Fin 0, Fin 0, Fin 0), (PInf, NaN, NInf)] ! 1)"
proof -
  have l: "(1::int) \<le> 2" by simp
  obtain pts where c: "calculateWLCChain 2 (Fin 50) (Fin 300) (Fin 0) (Fin 0) (Fin 0)
       (Vector3 (Fin 1) (Fin 0) (Fin (- 1))) = Inr pts"
    and q: "\<forall>j. 1 \<le> j \<and> j < length pts \<longrightarrow> point_nonfinite (pts ! j)"
    using degeneracy_tolerance[of 2 "Fin 50" "Fin 300" "Fin 0" "Fin 0" "Fin 0"
      "Vector3 (Fin 1) (Fin 0) (Fin (- 1))"] l by blast
  have p: "pts = [(Fin 0, Fin 0, Fin 0), (PInf, NaN, NInf)]"
    using c by (simp add: zero_rigidity_run)
  have "point_nonfinite (pts ! 1)"
    by (rule q[rule_format]) (simp add: p)
  then show ?thesis using l p by (simp add: zero_rigidity_run)
qed

subsection \<open>A zero force and no noise\<close>



lemma loop_body_noise_off:
  assumes "\<bar>t1\<bar> < 2 ^ 1024" "\<bar>t2\<bar> < 2 ^ 1024"
  shows "loop_body (Fin t1) (Fin 0) b i st = loop_body (Fin t2) (Fin 0) b i st"
  by (simp add: loop_body_def normalized_direction_def fluctuation_noise_off[OF assms(1)]
      fluctuation_noise_off[OF assms(2)])

lemma wlc_loop_noise_off:
  assumes "\<bar>t1\<bar> < 2 ^ 1024" "\<bar>t2\<bar> < 2 ^ 1024"
  shows "wlc_loop (Fin t1) (Fin 0) b len i st = wlc_loop (Fin t2) (Fin 0) b len i st"
proof (induction "Fin t1" "Fin 0 :: jsnum" b len i st rule: wlc_loop.induct)
  case (1 b len i st)
  note eq = loop_body_noise_off[OF assms, of b i st]
  show ?case
  proof (cases "i < len")
    case False
    then show ?thesis by (simp add: wlc_loop_done)
  next
    case True
    show ?thesis
    proof (cases "loop_body (Fin t1) (Fin 0) b i st")
      case (Inl e)
      then show ?thesis using True eq
        by (simp add: wlc_loop.simps[of _ _ b len i])
    next
      case (Inr st')
      then show ?thesis using True eq 1[OF True Inr]
        by (simp add: wlc_loop.simps[of _ _ b len i])
    qed
  qed
qed







text \<open>
  C10 as amended, noise-off noninterference: two calls with the same length, bending
  rigidity and external force, both with the noise level 0, with times that are finite
  doubles and each with a quotient \<^verbatim>\<open>temperature / persistenceLength\<close> that is a finite
  number \<open>q \<ge> 0\<close> (so that the thermal scale is 0), return the same points, whatever the
  two times, temperatures and persistence lengths are.
\<close>

theorem noise_off_same_points:
  assumes "js_div temperature1 persistenceLength1 = Fin q1" "0 \<le> q1" "\<bar>t1\<bar> < 2 ^ 1024"
    and "js_div temperature2 persistenceLength2 = Fin q2" "0 \<le> q2" "\<bar>t2\<bar> < 2 ^ 1024"
  shows "calculateWLCChain len persistenceLength1 temperature1 (Fin t1) bendingRigidity (Fin 0)
           externalForce =
         calculateWLCChain len persistenceLength2 temperature2 (Fin t2) bendingRigidity (Fin 0)
           externalForce"
  unfolding calculateWLCChain_def thermalFluctuation_noise_off[OF assms(1,2)]
    thermalFluctuation_noise_off[OF assms(4,5)]
  by (simp only: wlc_loop_noise_off[OF assms(3,6)])

theorem noise_off_same_points_witness:
  "js_div (Fin 300) (Fin 50) = Fin 6 \<and> (0::real) \<le> 6 \<and> \<bar>0::real\<bar> < 2 ^ 1024 \<and>
   js_div (Fin 100) (Fin 10) = Fin 10 \<and> (0::real) \<le> 10 \<and> \<bar>7::real\<bar> < 2 ^ 1024 \<and>
   calculateWLCChain 3 (Fin 50) (Fin 300) (Fin 0) (Fin 2) (Fin 0) (Vector3 (Fin 1) (Fin 0) (Fin 0)) =
   calculateWLCChain 3 (Fin 10) (Fin 100) (Fin 7) (Fin 2) (Fin 0) (Vector3 (Fin 1) (Fin 0) (Fin 0))"
proof -
  have a: "js_div (Fin 300) (Fin 50) = Fin 6" "(0::real) \<le> 6" "\<bar>0::real\<bar> < 2 ^ 1024"
    by (simp_all add: js_div_default)
  have b: "js_div (Fin 100) (Fin 10) = Fin 10" "(0::real) \<le> 10" "\<bar>7::real\<bar> < 2 ^ 1024"
    by simp_all
  show ?thesis
    using a b noise_off_same_points[OF a b, of 3 "Fin 2" "Vector3 (Fin 1) (Fin 0) (Fin 0)"]
    by blast
qed

text \<open>
  C10 as stated fails: with the noise level 0, the bending rigidity 2 and
  \<^verbatim>\<open>externalForce = (1, 0, 0)\<close>, the temperature \<open>2 ^ 600\<close> over the persistence length
  \<open>2 ^ - 600\<close> is \<open>+Infinity\<close>, which is \<open>\<ge> 0\<close>, and the thermal scale
  \<open>Infinity * 0\<close> is NaN; the time \<open>+Infinity\<close> with the quotient 6 gives NaN
  fluctuations. Either call returns \<open>(0,0,0)\<close>, \<open>(NaN,NaN,NaN)\<close>, while the call with the
  temperature 300, the persistence length 50 and the time 0 returns \<open>(0,0,0)\<close>,
  \<open>(1.5,0,0)\<close>.
\<close>

theorem noise_off_counterexample:
  "js_ge (js_div (Fin (2 ^ 600)) (Fin (1 / 2 ^ 600))) (Fin 0) \<and>
   js_ge (js_div (Fin 300) (Fin 50)) (Fin 0) \<and>
   calculateWLCChain 2 (Fin (1 / 2 ^ 600)) (Fin (2 ^ 600)) (Fin 0) (Fin 2) (Fin 0)
       (Vector3 (Fin 1) (Fin 0) (Fin 0))
     = Inr [(Fin 0, Fin 0, Fin 0), (NaN, NaN, NaN)] \<and>
   calculateWLCChain 2 (Fin 50) (Fin 300) PInf (Fin 2) (Fin 0) (Vector3 (Fin 1) (Fin 0) (Fin 0))
     = Inr [(Fin 0, Fin 0, Fin 0), (NaN, NaN, NaN)] \<and>
   calculateWLCChain 2 (Fin 50) (Fin 300) (Fin 0) (Fin 2) (Fin 0) (Vector3 (Fin 1) (Fin 0) (Fin 0))
     = Inr [(Fin 0, Fin 0, Fin 0), (Fin 1.5, Fin 0, Fin 0)]"
proof -
  have q: "js_div (Fin (2 ^ 600)) (Fin (1 / 2 ^ 600)) = PInf"
    by (simp add: js_finite_result_def double_overflow_def js_inf_def)
  have tf: "thermalFluctuation (Fin (1 / 2 ^ 600)) (Fin (2 ^ 600)) (Fin 0) = NaN"
    by (simp add: thermalFluctuation_def js_finite_result_def double_overflow_def js_inf_def)
  have a: "calculateWLCChain 2 (Fin (1 / 2 ^ 600)) (Fin (2 ^ 600)) (Fin 0) (Fin 2) (Fin 0)
       (Vector3 (Fin 1) (Fin 0) (Fin 0)) = Inr [(Fin 0, Fin 0, Fin 0), (NaN, NaN, NaN)]"
    by (simp only: calculateWLCChain_def tf)
      (simp add: fluctuation_NaN wlc_loop.simps loop_body_def
        normalized_direction_def wlc_init_def v_normalize_def v_add_def v_length_def
        v_divideScalar_def v_multiplyScalar_def js_or_def js_index_def add_direction_def Let_def)
  have b: "calculateWLCChain 2 (Fin 50) (Fin 300) PInf (Fin 2) (Fin 0)
       (Vector3 (Fin 1) (Fin 0) (Fin 0)) = Inr [(Fin 0, Fin 0, Fin 0), (NaN, NaN, NaN)]"
    by (simp add: calculateWLCChain_def fluctuation_PInf wlc_loop.simps loop_body_def
        normalized_direction_def wlc_init_def v_normalize_def v_add_def v_length_def
        v_divideScalar_def v_multiplyScalar_def js_or_def js_index_def add_direction_def Let_def)
  have c: "calculateWLCChain 2 (Fin 50) (Fin 300) (Fin 0) (Fin 2) (Fin 0)
       (Vector3 (Fin 1) (Fin 0) (Fin 0)) = Inr [(Fin 0, Fin 0, Fin 0), (Fin 1.5, Fin 0, Fin 0)]"
    by (simp add: calculateWLCChain_def wlc_loop.simps loop_body_def
        normalized_direction_def wlc_init_def v_normalize_def v_add_def v_length_def
        v_divideScalar_def v_multiplyScalar_def js_or_def js_index_def add_direction_def Let_def
        js_evaluate)
  have g1: "js_ge (js_div (Fin (2 ^ 600)) (Fin (1 / 2 ^ 600))) (Fin 0)"
    by (simp only: q js_ge.simps)
  have g2: "js_ge (js_div (Fin 300) (Fin 50)) (Fin 0)"
    by (simp add: js_div_default)
  show ?thesis using g1 g2 a b c by (intro conjI)
qed

subsection \<open>The accumulated time\<close>

lemma timeRef_callback: "timeRef (useFrame_callback p s) = js_add (timeRef s) (Fin 0.01)"
  by (simp add: useFrame_callback_def Let_def split: sum.splits)

lemma timeRef_run:
  "timeRef s = Fin t \<Longrightarrow>
   timeRef (snd (app_run (p, s) es)) = Fin (t + real (frames es) * 0.01)"
proof (induction es arbitrary: p s t)
  case Nil
  then show ?case by simp
next
  case (Cons e es)
  show ?case
  proof (cases e)
    case Frame
    have "timeRef (useFrame_callback p s) = Fin (t + 0.01)"
      using Cons.prems by (simp add: timeRef_callback)
    from Cons.IH[OF this, of p] show ?thesis using Frame by (simp add: algebra_simps)
  next
    case (Edit p')
    from Cons.IH[OF Cons.prems, of p'] show ?thesis using Edit by simp
  qed
qed

text \<open>
  C8, the time accumulation: from a fresh mount, after any sequence of frames and
  parameter edits the accumulated time is the number of frames times 0.01; a frame adds
  exactly 0.01 to it, and a parameter edit leaves it as it is.
\<close>

theorem time_accumulation:
  "timeRef (snd (app_run (p, DNAModel_mount) es)) = Fin (real (frames es) * 0.01) \<and>
   timeRef (snd (app_step (p, s) Frame)) = js_add (timeRef s) (Fin 0.01) \<and>
   timeRef (snd (app_step (p, s) (Edit p'))) = timeRef s"
  using timeRef_run[of DNAModel_mount 0 p es]
  by (simp add: DNAModel_mount_def timeRef_callback)

subsection \<open>The call on a heap\<close>

lemma loop_body_heap_sim:
  assumes "d < length h" "f < length h" "d \<noteq> f" "n \<le> d" "n \<le> f"
    and "h ! d = direction st" "h ! f = force st"
    and "loop_body time tf b i st = Inr st'"
  shows "\<exists>h'. loop_body_heap time tf b d f i (h, points st) = Inr (h', points st') \<and>
           length h' = length h + 1 \<and> take n h' = take n h \<and>
           h' ! d = direction st' \<and> h' ! f = force st'"
proof -
  obtain p where p: "js_index (points st) (i - 1) = Some p"
    using assms(8) by (auto simp: loop_body_def Let_def split: option.splits)
  define d1 where "d1 = normalized_direction time tf i (direction st)"
  define f1 where "f1 = v_multiplyScalar (force st) (js_div (Fin 1) b)"
  have st': "st' = \<lparr>direction = v_add d1 f1, force = f1,
      points = points st @ [add_direction p (v_add d1 f1)]\<rparr>"
    using assms(8) p by (simp add: loop_body_def Let_def d1_def f1_def)
  define h' where "h' = (h @ [fluctuation time tf i])[d := d1, f := f1, d := v_add d1 f1]"
  have "loop_body_heap time tf b d f i (h, points st) = Inr (h', points st')"
    using assms(1-3,6,7) p
    by (simp add: loop_body_heap_def new_Vector3_def h_add_def h_normalize_def
        h_multiplyScalar_def Let_def nth_append st' h'_def d1_def f1_def
        normalized_direction_def fluctuation_def)
  moreover have "length h' = length h + 1" by (simp add: h'_def)
  moreover have "take n h' = take n h" using assms(1,4,5) by (simp add: h'_def)
  moreover have "h' ! d = direction st'" using assms(1) by (simp add: h'_def st')
  moreover have "h' ! f = force st'" using assms(2,3) by (simp add: h'_def st')
  ultimately show ?thesis by blast
qed

lemma wlc_loop_heap_sim:
  "d < length h \<Longrightarrow> f < length h \<Longrightarrow> d \<noteq> f \<Longrightarrow> n \<le> d \<Longrightarrow> n \<le> f \<Longrightarrow>
   h ! d = direction st \<Longrightarrow> h ! f = force st \<Longrightarrow>
   wlc_loop time tf b len i st = Inr st' \<Longrightarrow>
   \<exists>h'. wlc_loop_heap time tf b d f len i (h, points st) = Inr (h', points st') \<and>
        length h \<le> length h' \<and> take n h' = take n h"
proof (induction time tf b len i st arbitrary: h rule: wlc_loop.induct)
  case (1 time tf b len i st)
  show ?case
  proof (cases "i < len")
    case False
    then have "st' = st" using "1.prems"(8) by (simp add: wlc_loop.simps)
    then show ?thesis using False by (simp add: wlc_loop_heap.simps)
  next
    case True
    obtain st1 where b1: "loop_body time tf b i st = Inr st1"
      and r1: "wlc_loop time tf b len (i + 1) st1 = Inr st'"
      using "1.prems"(8) True by (subst (asm) wlc_loop.simps) (auto split: sum.splits)
    from loop_body_heap_sim[OF "1.prems"(1-7) b1]
    obtain h1 where hb: "loop_body_heap time tf b d f i (h, points st) = Inr (h1, points st1)"
      and l1: "length h1 = length h + 1" and t1: "take n h1 = take n h"
      and d1: "h1 ! d = direction st1" and f1: "h1 ! f = force st1" by blast
    have "d < length h1" "f < length h1" using "1.prems"(1,2) l1 by simp_all
    from "1.IH"[OF True b1 this "1.prems"(3,4,5) d1 f1 r1]
    obtain h' where r: "wlc_loop_heap time tf b d f len (i + 1) (h1, points st1) = Inr (h', points st')"
      and l: "length h1 \<le> length h'" and t: "take n h' = take n h1" by blast
    have "wlc_loop_heap time tf b d f len i (h, points st) = Inr (h', points st')"
      using True hb r by (subst wlc_loop_heap.simps) simp
    then show ?thesis using l l1 t t1 by auto
  qed
qed

lemma calculateWLCChain_heap_sim:
  assumes "ef < length h"
    and "calculateWLCChain len pl temp time b noise (h ! ef) = Inr pts"
  shows "\<exists>h'. calculateWLCChain_heap h len pl temp time b noise ef = Inr (pts, h') \<and>
           length h \<le> length h' \<and> take (length h) h' = h"
proof -
  define tf where "tf = thermalFluctuation pl temp noise"
  define h2 where "h2 = h @ [Vector3 (Fin 1) (Fin 0) (Fin 0), h ! ef]"
  obtain st' where r: "wlc_loop time tf b len 1 (wlc_init (h ! ef)) = Inr st'"
    and p: "pts = points st'"
    using assms(2) by (auto simp: calculateWLCChain_def tf_def split: sum.splits)
  have "\<exists>h'. wlc_loop_heap time tf b (length h) (length h + 1) len 1 (h2, points (wlc_init (h ! ef)))
          = Inr (h', points st') \<and> length h2 \<le> length h' \<and> take (length h) h' = take (length h) h2"
    by (rule wlc_loop_heap_sim[OF _ _ _ _ _ _ _ r])
      (simp_all add: h2_def nth_append wlc_init_def)
  then obtain h' where rh: "wlc_loop_heap time tf b (length h) (length h + 1) len 1
        (h2, [(Fin 0, Fin 0, Fin 0)]) = Inr (h', points st')"
    and l: "length h2 \<le> length h'" and t: "take (length h) h' = take (length h) h2"
    by (auto simp: wlc_init_def)
  have "calculateWLCChain_heap h len pl temp time b noise ef = Inr (pts, h')"
    using assms(1) rh p
    by (simp add: calculateWLCChain_heap_def new_Vector3_def nth_append tf_def h2_def)
  moreover have "length h \<le> length h'" using l by (simp add: h2_def)
  moreover have "take (length h) h' = h" using t by (simp add: h2_def)
  ultimately show ?thesis by blast
qed

text \<open>
  C5, determinism: the call is a function of the values of its seven arguments and of
  nothing else, and it changes no object of its caller. On any heap \<open>h\<close> that holds the
  object \<^verbatim>\<open>externalForce\<close> at the reference \<open>ef\<close>, the call returns the points that
  \<open>calculateWLCChain\<close> computes from the seven values alone, every object of \<open>h\<close> is
  left as it was (the new vectors are appended), and a second call with the same arguments
  on the heap the first one left returns the same points.
\<close>

theorem determinism:
  assumes "ef < length h"
  shows "\<exists>pts h1 h2.
     calculateWLCChain_heap h len persistenceLength temperature time bendingRigidity noiseLevel ef
       = Inr (pts, h1) \<and>
     calculateWLCChain len persistenceLength temperature time bendingRigidity noiseLevel (h ! ef)
       = Inr pts \<and>
     take (length h) h1 = h \<and>
     calculateWLCChain_heap h1 len persistenceLength temperature time bendingRigidity noiseLevel ef
       = Inr (pts, h2)"
proof -
  obtain pts where c: "calculateWLCChain len persistenceLength temperature time bendingRigidity
      noiseLevel (h ! ef) = Inr pts"
    using calc_Inr[of len persistenceLength temperature time bendingRigidity noiseLevel "h ! ef"]
    by blast
  obtain h1 where r1: "calculateWLCChain_heap h len persistenceLength temperature time
      bendingRigidity noiseLevel ef = Inr (pts, h1)"
    and l1: "length h \<le> length h1" and t1: "take (length h) h1 = h"
    using calculateWLCChain_heap_sim[OF assms c] by blast
  have e1: "ef < length h1" using assms l1 by simp
  have "h1 ! ef = take (length h) h1 ! ef" using assms by simp
  then have "h1 ! ef = h ! ef" using t1 by simp
  then have c1: "calculateWLCChain len persistenceLength temperature time bendingRigidity
      noiseLevel (h1 ! ef) = Inr pts" using c by simp
  obtain h2 where r2: "calculateWLCChain_heap h1 len persistenceLength temperature time
      bendingRigidity noiseLevel ef = Inr (pts, h2)"
    using calculateWLCChain_heap_sim[OF e1 c1] by blast
  show ?thesis using r1 c t1 r2 by blast
qed

theorem determinism_witness:
  "(0::nat) < length [Vector3 (Fin 1) (Fin 0) (Fin 0)] \<and>
   (\<exists>pts h1 h2.
     calculateWLCChain_heap [Vector3 (Fin 1) (Fin 0) (Fin 0)] 3 (Fin 50) (Fin 300) (Fin 0.01)
       (Fin 2) (Fin 1) 0 = Inr (pts, h1) \<and>
     take 1 h1 = [Vector3 (Fin 1) (Fin 0) (Fin 0)] \<and>
     calculateWLCChain_heap h1 3 (Fin 50) (Fin 300) (Fin 0.01) (Fin 2) (Fin 1) 0 = Inr (pts, h2))"
  using determinism[of 0 "[Vector3 (Fin 1) (Fin 0) (Fin 0)]" 3 "Fin 50" "Fin 300" "Fin 0.01"
      "Fin 2" "Fin 1"]
  by auto

end
